theory Spec2Isabelle
  imports Main "HOL-Library.Multiset"
begin

section \<open>The console front end: CloudFront distribution and Cognito resources\<close>

text \<open>
  The sources are AWS CDK constructs (\<^verbatim>\<open>lib/front-end/console.ts\<close>, which holds the
  console construct and the Cognito construct). A construct's constructor is a function
  from its props to the resources it declares. The model keeps, for every resource a
  statement below is about, the properties the constructor passes, under the names the
  source gives them. Values that CloudFormation only fixes when the stack is deployed
  (a parameter's value, the id of a created resource, \<^verbatim>\<open>Fn.conditionIf\<close>) are kept as
  expressions and resolved by an explicit deploy-time semantics.
\<close>

subsection \<open>CloudFormation expressions and conditions\<close>

text \<open>
  \<^verbatim>\<open>Fn.conditionEquals(a, b)\<close> is the only condition expression of the sources; its
  operands are strings (a parameter's value and a literal).
\<close>

datatype CfnConditionExpression = ConditionEquals string string

datatype CfnValue =
    Str string
  | ResourceRef string
  | ConditionIf string CfnValue CfnValue

record CfnCondition =
  logicalId :: string
  expression :: CfnConditionExpression

fun evalExpression :: "CfnConditionExpression \<Rightarrow> bool" where
  "evalExpression (ConditionEquals a b) = (a = b)"

text \<open>
  A condition named by its logical id holds when the template declares it and its
  expression evaluates to true; CloudFormation refuses a template that names an
  undeclared condition, which is the value \<open>False\<close> here.
\<close>

fun conditionHolds :: "CfnCondition list \<Rightarrow> string \<Rightarrow> bool" where
  "conditionHolds [] name = False"
| "conditionHolds (c # cs) name =
     (if logicalId c = name then evalExpression (expression c) else conditionHolds cs name)"

text \<open>
  Resolution of a value at deploy time: \<open>physicalId\<close> gives the id CloudFormation
  assigns to the resource created for a logical id.
\<close>

fun resolve :: "CfnCondition list \<Rightarrow> (string \<Rightarrow> string) \<Rightarrow> CfnValue \<Rightarrow> string" where
  "resolve conds physicalId (Str s) = s"
| "resolve conds physicalId (ResourceRef l) = physicalId l"
| "resolve conds physicalId (ConditionIf c a b) =
     (if conditionHolds conds c then resolve conds physicalId a else resolve conds physicalId b)"

text \<open>
  A resource whose \<^verbatim>\<open>cfnOptions.condition\<close> is set is created exactly when the condition
  holds; a resource without a condition is always created.
\<close>

fun resourceCreated :: "CfnCondition list \<Rightarrow> string option \<Rightarrow> bool" where
  "resourceCreated conds None = True"
| "resourceCreated conds (Some c) = conditionHolds conds c"

subsection \<open>DLTConsoleConstruct\<close>

record DLTConsoleConstructProps =
  s3LogsBucket :: string
  solutionId :: string
  cloudFrontAliases :: "string list"
  cloudFrontCertificateArn :: string
  sslSupportMethod :: string
  cloudFrontDefaultCertificate :: string

record ErrorResponse =
  httpStatus :: nat
  responseHttpStatus :: nat
  responsePagePath :: string

record BucketProps =
  serverAccessLogsBucket :: string
  serverAccessLogsPrefix :: string

record CloudFrontDistributionProps =
  comment :: string
  enableLogging :: bool
  errorResponses :: "ErrorResponse list"
  httpVersion :: string
  logBucket :: string
  logFilePrefix :: string
  domainNames :: "string list"
  certificate :: string
  distSslSupportMethod :: string

record CloudFrontToS3Props =
  bucketProps :: BucketProps
  cloudFrontDistributionProps :: CloudFrontDistributionProps
  insertHttpSecurityHeaders :: bool

text \<open>
  What the constructor declares: the props handed to \<^verbatim>\<open>CloudFrontToS3\<close> and the property
  override added to the distribution afterwards
  (\<^verbatim>\<open>DistributionConfig.ViewerCertificate.CloudFrontDefaultCertificate\<close>).
\<close>

record DLTConsole =
  dltS3CloudFrontDist :: CloudFrontToS3Props
  viewerCertificateOverride :: string

definition DLTConsoleConstruct :: "DLTConsoleConstructProps \<Rightarrow> DLTConsole" where
  "DLTConsoleConstruct props =
     \<lparr> dltS3CloudFrontDist =
         \<lparr> bucketProps =
             \<lparr> serverAccessLogsBucket = s3LogsBucket props,
               serverAccessLogsPrefix = ''console-bucket-access/'' \<rparr>,
           cloudFrontDistributionProps =
             \<lparr> comment = ''Website distribution for the Distributed Load Testing solution'',
               enableLogging = True,
               errorResponses =
                 [ \<lparr> httpStatus = 403, responseHttpStatus = 200, responsePagePath = ''/index.html'' \<rparr>,
                   \<lparr> httpStatus = 404, responseHttpStatus = 200, responsePagePath = ''/index.html'' \<rparr> ],
               httpVersion = ''http2'',
               logBucket = s3LogsBucket props,
               logFilePrefix = ''cloudfront-logs/'',
               domainNames = cloudFrontAliases props,
               certificate = cloudFrontCertificateArn props,
               distSslSupportMethod = sslSupportMethod props \<rparr>,
           insertHttpSecurityHeaders = False \<rparr>,
       viewerCertificateOverride = cloudFrontDefaultCertificate props \<rparr>"

text \<open>
  The \<^verbatim>\<open>CustomErrorResponses\<close> of the synthesized distribution, as the snapshot of
  \<^verbatim>\<open>test/console.test.ts\<close> records them: one entry (ErrorCode, ResponseCode,
  ResponsePagePath) per error response, in order.
\<close>

definition customErrorResponses :: "DLTConsole \<Rightarrow> (nat \<times> nat \<times> string) list" where
  "customErrorResponses c =
     map (\<lambda>e. (httpStatus e, responseHttpStatus e, responsePagePath e))
       (errorResponses (cloudFrontDistributionProps (dltS3CloudFrontDist c)))"

text \<open>
  What a viewer receives when the origin answers a request for \<open>path\<close> with status
  \<open>originStatus\<close>: CloudFront applies the first custom error response configured for
  that status (its response code and its page), and passes the origin's answer through
  when there is none.
\<close>

fun applyErrorResponses :: "(nat \<times> nat \<times> string) list \<Rightarrow> nat \<Rightarrow> string \<Rightarrow> nat \<times> string" where
  "applyErrorResponses [] originStatus path = (originStatus, path)"
| "applyErrorResponses ((errorCode, responseCode, page) # rest) originStatus path =
     (if errorCode = originStatus then (responseCode, page)
      else applyErrorResponses rest originStatus path)"

definition viewerResponse :: "DLTConsole \<Rightarrow> nat \<Rightarrow> string \<Rightarrow> nat \<times> string" where
  "viewerResponse c originStatus path =
     applyErrorResponses (customErrorResponses c) originStatus path"

subsection \<open>CognitoAuthConstruct\<close>

record CognitoAuthConstructProps =
  adminEmail :: string
  adminName :: string
  apiId :: string
  cloudFrontDomainName :: string
  scenariosBucketArn :: string
  existingCognitoPoolId :: string

record PasswordPolicy =
  minLength :: nat
  requireLowercase :: bool
  requireDigits :: bool
  requireSymbols :: bool
  requireUppercase :: bool

text \<open>
  The \<^verbatim>\<open>UserPool\<close> named \<^verbatim>\<open>DLTUserPool\<close>: its props, and the two assignments made on its
  \<^verbatim>\<open>CfnUserPool\<close> child afterwards (\<^verbatim>\<open>userPoolAddOns\<close> and \<^verbatim>\<open>cfnOptions.condition\<close>).
  The invitation texts and the pool's name are strings built from the stack name and
  the console's domain; they play no part below and are left out.
\<close>

record UserPool =
  autoVerifyEmail :: bool
  passwordPolicy :: PasswordPolicy
  removalPolicy :: string
  selfSignUpEnabled :: bool
  signInAliasEmail :: bool
  signInAliasUsername :: bool
  standardAttributeEmailRequired :: bool
  advancedSecurityMode :: string
  userPoolCondition :: "string option"

text \<open>
  A provider of the identity pool: the client's id and the user pool whose id ends the
  provider name (\<^verbatim>\<open>cognito-idp.<region>.amazonaws.com/<userPoolId>\<close>).
\<close>

record CognitoIdentityProvider =
  clientId :: CfnValue
  providerUserPoolId :: CfnValue

record CfnIdentityPool =
  allowUnauthenticatedIdentities :: bool
  cognitoIdentityProviders :: "CognitoIdentityProvider list"

record CfnUserPoolUser =
  username :: string
  emailAttribute :: string
  userPoolIdOfUser :: CfnValue

text \<open>
  The \<^verbatim>\<open>UserPoolClient\<close> named \<^verbatim>\<open>DLTUserPoolClient\<close>. Its pool is
  \<^verbatim>\<open>UserPool.fromUserPoolId(this, "UserPool", this.cognitoUserPoolId)\<close>, that is the
  exposed pool id; its only supported identity provider is the custom provider
  \<^verbatim>\<open>AzureAD\<close>. The client's name is left out.
\<close>

record UserPoolClient =
  clientUserPoolId :: CfnValue
  supportedIdentityProviders :: "string list"
  generateSecret :: bool
  authorizationCodeGrant :: bool
  oAuthScopes :: "string list"
  callbackUrls :: "string list"
  logoutUrls :: "string list"
  writeAttributes :: "string list"
  refreshTokenValidityDays :: nat

text \<open>
  The construct: the condition, the user pool, the exposed pool id, the user pool
  client, the identity pool and the administrator's user. The IoT policy and the two
  IAM roles do not bear on the pools' settings and are left out.
\<close>

record CognitoAuth =
  createUserPoolResourceCondition :: CfnCondition
  cognitoUserPool :: UserPool
  cognitoUserPoolId :: CfnValue
  cognitoUserPoolClient :: UserPoolClient
  cognitoUserPoolClientId :: CfnValue
  cognitoIdentityPool :: CfnIdentityPool
  cognitoUser :: CfnUserPoolUser

definition CognitoAuthConstruct :: "CognitoAuthConstructProps \<Rightarrow> CognitoAuth" where
  "CognitoAuthConstruct props =
     (let createUserPoolResource =
            \<lparr> logicalId = ''createUserPoolResource'',
              expression = ConditionEquals (existingCognitoPoolId props) '''' \<rparr>;
          userPool =
            \<lparr> autoVerifyEmail = True,
              passwordPolicy =
                \<lparr> minLength = 12,
                  requireLowercase = True,
                  requireDigits = True,
                  requireSymbols = True,
                  requireUppercase = True \<rparr>,
              removalPolicy = ''DESTROY'',
              selfSignUpEnabled = False,
              signInAliasEmail = True,
              signInAliasUsername = True,
              standardAttributeEmailRequired = True,
              advancedSecurityMode = ''ENFORCED'',
              userPoolCondition = Some (logicalId createUserPoolResource) \<rparr>;
          userPoolId =
            ConditionIf (logicalId createUserPoolResource)
              (ResourceRef ''DLTUserPool'') (Str (existingCognitoPoolId props));
          userPoolClientId = ResourceRef ''DLTUserPoolClient''
      in \<lparr> createUserPoolResourceCondition = createUserPoolResource,
           cognitoUserPool = userPool,
           cognitoUserPoolId = userPoolId,
           cognitoUserPoolClient =
             \<lparr> clientUserPoolId = userPoolId,
               supportedIdentityProviders = [''AzureAD''],
               generateSecret = False,
               authorizationCodeGrant = True,
               oAuthScopes = [''email'', ''openid'', ''profile'', ''aws.cognito.signin.user.admin''],
               callbackUrls = [''https://'' @ cloudFrontDomainName props @ ''/''],
               logoutUrls = [''https://'' @ cloudFrontDomainName props @ ''/''],
               writeAttributes = [''address'', ''email'', ''phoneNumber''],
               refreshTokenValidityDays = 1 \<rparr>,
           cognitoUserPoolClientId = userPoolClientId,
           cognitoIdentityPool =
             \<lparr> allowUnauthenticatedIdentities = False,
               cognitoIdentityProviders =
                 [ \<lparr> clientId = userPoolClientId, providerUserPoolId = userPoolId \<rparr> ] \<rparr>,
           cognitoUser =
             \<lparr> username = adminName props,
               emailAttribute = adminEmail props,
               userPoolIdOfUser = userPoolId \<rparr> \<rparr>)"

text \<open>The conditions the construct adds to the template.\<close>

definition conditionsOf :: "CognitoAuth \<Rightarrow> CfnCondition list" where
  "conditionsOf a = [createUserPoolResourceCondition a]"

text \<open>Whether deploying the construct creates the user pool resource.\<close>

definition userPoolCreated :: "CognitoAuth \<Rightarrow> bool" where
  "userPoolCreated a = resourceCreated (conditionsOf a) (userPoolCondition (cognitoUserPool a))"

text \<open>The pool id the construct exposes, as resolved when the stack is deployed.\<close>

definition resolvedUserPoolId :: "(string \<Rightarrow> string) \<Rightarrow> CognitoAuth \<Rightarrow> string" where
  "resolvedUserPoolId physicalId a = resolve (conditionsOf a) physicalId (cognitoUserPoolId a)"

text \<open>
  The ids of the user pools whose users the identity pool accepts, as resolved when the
  stack is deployed: one per configured provider.
\<close>

definition trustedUserPoolIds :: "(string \<Rightarrow> string) \<Rightarrow> CognitoAuth \<Rightarrow> string list" where
  "trustedUserPoolIds physicalId a =
     map (\<lambda>p. resolve (conditionsOf a) physicalId (providerUserPoolId p))
       (cognitoIdentityProviders (cognitoIdentityPool a))"

text \<open>
  Whether the user pool behind the exposed pool id lets people sign themselves up. When
  the construct creates the pool, this is the pool's \<open>selfSignUpEnabled\<close>. When the
  id is that of a pool that already exists, the construct sets nothing on it: the
  setting is the existing pool's own, given here by \<open>existingSelfSignUp\<close> for each
  pool id of the account.
\<close>

definition trustedPoolSelfSignUp ::
    "(string \<Rightarrow> bool) \<Rightarrow> (string \<Rightarrow> string) \<Rightarrow> CognitoAuth \<Rightarrow> bool" where
  "trustedPoolSelfSignUp existingSelfSignUp physicalId a =
     (if userPoolCreated a then selfSignUpEnabled (cognitoUserPool a)
      else existingSelfSignUp (resolvedUserPoolId physicalId a))"

section \<open>The orchestrator of the design document\<close>

text \<open>
  The stack (\<^verbatim>\<open>lib/distributed-load-testing-on-aws-stack.ts\<close>) only wires the task
  runner, the status checker, the canceler and the results parser into a step function;
  their code is not among the sources. The two components below are therefore written
  from the design document (sections 4.1 and 4.4), not from code.
\<close>

subsection \<open>Worker Fleet Controller: placing the workers\<close>

text \<open>
  Modelled from the spec: the ceiling of a quotient of two counts, as in
  \<^verbatim>\<open>ceil(desiredConcurrency / workerCapacity)\<close> and "\<^verbatim>\<open>workerCount / regionCount\<close> (ceil)".
  The fleet controller's code is missing from the sources.
\<close>

definition ceilDiv :: "nat \<Rightarrow> nat \<Rightarrow> nat" where
  "ceilDiv a b = (a + b - 1) div b"

text \<open>
  Modelled from the spec: "Distributes workers across requested regions using
  round-robin" (section 4.1; the fleet controller's code is missing from the sources).
  Worker \<open>k\<close> of \<open>workerCount\<close> goes to the listed region of index
  \<open>k mod regionCount\<close>; the result lists, in launch order, the index of each worker's
  region.
\<close>

definition roundRobin :: "nat \<Rightarrow> nat \<Rightarrow> nat list" where
  "roundRobin workerCount regionCount = map (\<lambda>k. k mod regionCount) [0..<workerCount]"

text \<open>
  Modelled from the spec: the region assigned to each launched worker ("Returns the
  ordered list of WorkerTask handles", each with its "assigned region"). With no region
  requested no worker can be placed; the spec does not say what the controller does
  then, and the list is empty here.
\<close>

definition assignRegions :: "nat \<Rightarrow> string list \<Rightarrow> string list" where
  "assignRegions workerCount regions =
     (if regions = [] then []
      else map (\<lambda>i. regions ! i) (roundRobin workerCount (length regions)))"

text \<open>
  Modelled from the spec: the number of workers each listed region gets, in the order
  the regions are listed (the "regions' worker counts" of section 8).
\<close>

definition perRegionCounts :: "nat \<Rightarrow> string list \<Rightarrow> nat list" where
  "perRegionCounts workerCount regions =
     map (count_list (roundRobin workerCount (length regions))) [0..<length regions]"

subsection \<open>Results Aggregator\<close>

text \<open>
  Modelled from the spec: the per-worker summary an artifact holds ("per-task summaries
  provide counts and latency histograms", section 4.4; the aggregator's code is missing
  from the sources). A histogram lists the number of samples per latency bucket, the
  buckets being the same for every worker.
\<close>

record PerWorkerSummary =
  requestCount :: nat
  workerErrorCount :: nat
  workerThroughput :: nat
  latencyHistogram :: "nat list"

text \<open>
  Modelled from the spec: the artifact of a WorkerTask that stopped successfully,
  with the task's assigned region (the aggregator's input, section 4.4).
\<close>

record Artifact =
  assignedRegion :: string
  perWorkerSummary :: PerWorkerSummary

text \<open>
  Modelled from the spec: the ResultSummary of section 3: "total requests, error
  count, throughput, latency percentiles (p50/p90/p99), per-region breakdown". The
  breakdown gives, for a region, the number of tasks that contributed.
\<close>

record ResultSummary =
  totalRequests :: nat
  errorCount :: nat
  throughput :: nat
  p50 :: nat
  p90 :: nat
  p99 :: nat
  perRegion :: "string \<Rightarrow> nat"

text \<open>Modelled from the spec: the aggregator's error, "Fails with NoArtifacts".\<close>

datatype AggregatorError = NoArtifacts

text \<open>
  Modelled from the spec: the merge of two latency histograms, bucket by bucket; the
  shorter one counts nothing in the buckets it lacks.
\<close>

fun mergeHistograms :: "nat list \<Rightarrow> nat list \<Rightarrow> nat list" where
  "mergeHistograms [] h = h"
| "mergeHistograms h [] = h"
| "mergeHistograms (a # h) (b # h') = (a + b) # mergeHistograms h h'"

text \<open>Modelled from the spec: the merged histogram of all the artifacts.\<close>

definition mergedHistogram :: "Artifact list \<Rightarrow> nat list" where
  "mergedHistogram arts =
     fold mergeHistograms (map (\<lambda>a. latencyHistogram (perWorkerSummary a)) arts) []"

text \<open>
  Modelled from the spec: a percentile read off a histogram. The spec only says that
  percentiles "are recomputed from merged histograms"; the estimator here is the
  nearest rank: the first bucket at which the running count reaches
  \<open>ceil(p * total / 100)\<close>.
\<close>

fun bucketOfRank :: "nat \<Rightarrow> nat list \<Rightarrow> nat" where
  "bucketOfRank rank [] = 0"
| "bucketOfRank rank (c # h) = (if rank \<le> c then 0 else Suc (bucketOfRank (rank - c) h))"

definition percentile :: "nat \<Rightarrow> nat list \<Rightarrow> nat" where
  "percentile p h = bucketOfRank (ceilDiv (p * sum_list h) 100) h"

text \<open>
  Modelled from the spec: the Results Aggregator (section 4.4). It fails with
  \<open>NoArtifacts\<close> on an empty input; otherwise requests, errors and throughput are
  summed, the percentiles are those of the merged histogram, and the breakdown counts
  the contributing tasks of each region.
\<close>

definition aggregate :: "Artifact list \<Rightarrow> AggregatorError + ResultSummary" where
  "aggregate arts =
     (if arts = [] then Inl NoArtifacts
      else let merged = mergedHistogram arts
           in Inr \<lparr> totalRequests = sum_list (map (\<lambda>a. requestCount (perWorkerSummary a)) arts),
                    errorCount = sum_list (map (\<lambda>a. workerErrorCount (perWorkerSummary a)) arts),
                    throughput = sum_list (map (\<lambda>a. workerThroughput (perWorkerSummary a)) arts),
                    p50 = percentile 50 merged,
                    p90 = percentile 90 merged,
                    p99 = percentile 99 merged,
                    perRegion = (\<lambda>r. length (filter (\<lambda>a. assignedRegion a = r) arts)) \<rparr>)"

text \<open>
  Modelled from the spec: the number of samples a histogram holds in a latency bucket;
  a bucket the histogram lacks is empty. It states what merging histograms means.
\<close>

fun bucketCount :: "nat list \<Rightarrow> nat \<Rightarrow> nat" where
  "bucketCount [] i = 0"
| "bucketCount (c # h) 0 = c"
| "bucketCount (c # h) (Suc i) = bucketCount h i"

section \<open>Properties of the console front end\<close>

lemma customErrorResponses_console:
  "customErrorResponses (DLTConsoleConstruct props) =
     [(403, 200, ''/index.html''), (404, 200, ''/index.html'')]"
  by (simp add: customErrorResponses_def DLTConsoleConstruct_def)

text \<open>
  C9. Whatever props the console construct is given, the distribution it declares
  answers an origin status of 403 and an origin status of 404 with status 200 and the
  page \<^verbatim>\<open>/index.html\<close>, for every requested path; the two custom error responses are the
  ones the test's snapshot records.
\<close>

theorem console_error_responses_serve_index:
  "viewerResponse (DLTConsoleConstruct props) 403 path = (200, ''/index.html'')
   \<and> viewerResponse (DLTConsoleConstruct props) 404 path = (200, ''/index.html'')
   \<and> customErrorResponses (DLTConsoleConstruct props) =
       [(403, 200, ''/index.html''), (404, 200, ''/index.html'')]"
  unfolding viewerResponse_def customErrorResponses_console by simp

lemma conditionsOf_construct:
  "conditionsOf (CognitoAuthConstruct props) =
     [\<lparr> logicalId = ''createUserPoolResource'',
        expression = ConditionEquals (existingCognitoPoolId props) [] \<rparr>]"
  by (simp add: conditionsOf_def CognitoAuthConstruct_def Let_def)

lemma createUserPoolResource_holds:
  "conditionHolds (conditionsOf (CognitoAuthConstruct props)) ''createUserPoolResource''
     = (existingCognitoPoolId props = [])"
  by (simp add: conditionsOf_construct)

lemma userPoolCreated_construct:
  "userPoolCreated (CognitoAuthConstruct props) = (existingCognitoPoolId props = [])"
proof -
  have "userPoolCondition (cognitoUserPool (CognitoAuthConstruct props))
      = Some ''createUserPoolResource''"
    by (simp add: CognitoAuthConstruct_def Let_def)
  then show ?thesis
    unfolding userPoolCreated_def by (simp add: createUserPoolResource_holds)
qed

lemma cognitoUserPoolId_construct:
  "cognitoUserPoolId (CognitoAuthConstruct props) =
     ConditionIf ''createUserPoolResource'' (ResourceRef ''DLTUserPool'')
       (Str (existingCognitoPoolId props))"
  by (simp add: CognitoAuthConstruct_def Let_def)

lemma resolvedUserPoolId_construct:
  "resolvedUserPoolId physicalId (CognitoAuthConstruct props) =
     (if existingCognitoPoolId props = [] then physicalId ''DLTUserPool''
      else existingCognitoPoolId props)"
  unfolding resolvedUserPoolId_def cognitoUserPoolId_construct
  by (simp add: createUserPoolResource_holds)

lemma trustedUserPoolIds_construct:
  "trustedUserPoolIds physicalId (CognitoAuthConstruct props) =
     [resolvedUserPoolId physicalId (CognitoAuthConstruct props)]"
proof -
  let ?a = "CognitoAuthConstruct props"
  have providers: "cognitoIdentityProviders (cognitoIdentityPool ?a) =
      [\<lparr> clientId = cognitoUserPoolClientId ?a, providerUserPoolId = cognitoUserPoolId ?a \<rparr>]"
    by (simp add: CognitoAuthConstruct_def Let_def)
  show ?thesis
    unfolding trustedUserPoolIds_def resolvedUserPoolId_def providers by simp
qed

text \<open>
  C8, as amended. Whatever props the Cognito construct is given, the identity pool it
  declares does not allow unauthenticated identities, and the user pool it declares
  has self sign-up disabled and a password policy of at least 12 characters that
  requires lowercase letters, uppercase letters, digits and symbols. That user pool is
  created, and is the one pool the identity pool trusts, exactly when
  \<open>existingCognitoPoolId\<close> is empty; self sign-up is then closed. Otherwise no user
  pool is created, the identity pool trusts the pool of the given id, and whether people
  can sign themselves up is that pool's own setting. In both cases the client names the
  identity provider \<^verbatim>\<open>AzureAD\<close>. Nothing is said about who can obtain a console identity.
\<close>

theorem cognito_pool_settings_and_trusted_pool:
  "\<not> allowUnauthenticatedIdentities (cognitoIdentityPool (CognitoAuthConstruct props))
   \<and> \<not> selfSignUpEnabled (cognitoUserPool (CognitoAuthConstruct props))
   \<and> minLength (passwordPolicy (cognitoUserPool (CognitoAuthConstruct props))) = 12
   \<and> requireLowercase (passwordPolicy (cognitoUserPool (CognitoAuthConstruct props)))
   \<and> requireUppercase (passwordPolicy (cognitoUserPool (CognitoAuthConstruct props)))
   \<and> requireDigits (passwordPolicy (cognitoUserPool (CognitoAuthConstruct props)))
   \<and> requireSymbols (passwordPolicy (cognitoUserPool (CognitoAuthConstruct props)))
   \<and> userPoolCreated (CognitoAuthConstruct props) = (existingCognitoPoolId props = [])
   \<and> trustedUserPoolIds physicalId (CognitoAuthConstruct props) =
       [if existingCognitoPoolId props = [] then physicalId ''DLTUserPool''
        else existingCognitoPoolId props]
   \<and> trustedPoolSelfSignUp existingSelfSignUp physicalId (CognitoAuthConstruct props) =
       (existingCognitoPoolId props \<noteq> [] \<and> existingSelfSignUp (existingCognitoPoolId props))
   \<and> supportedIdentityProviders (cognitoUserPoolClient (CognitoAuthConstruct props)) = [''AzureAD'']
   \<and> clientUserPoolId (cognitoUserPoolClient (CognitoAuthConstruct props)) =
       cognitoUserPoolId (CognitoAuthConstruct props)"
proof -
  let ?a = "CognitoAuthConstruct props"
  have identities: "\<not> allowUnauthenticatedIdentities (cognitoIdentityPool ?a)"
    by (simp add: CognitoAuthConstruct_def Let_def)
  have signUp: "\<not> selfSignUpEnabled (cognitoUserPool ?a)"
    by (simp add: CognitoAuthConstruct_def Let_def)
  have policy: "passwordPolicy (cognitoUserPool ?a) =
      \<lparr> minLength = 12, requireLowercase = True, requireDigits = True,
        requireSymbols = True, requireUppercase = True \<rparr>"
    by (simp add: CognitoAuthConstruct_def Let_def)
  have settings: "minLength (passwordPolicy (cognitoUserPool ?a)) = 12
      \<and> requireLowercase (passwordPolicy (cognitoUserPool ?a))
      \<and> requireUppercase (passwordPolicy (cognitoUserPool ?a))
      \<and> requireDigits (passwordPolicy (cognitoUserPool ?a))
      \<and> requireSymbols (passwordPolicy (cognitoUserPool ?a))"
    unfolding policy by simp
  have created: "userPoolCreated ?a = (existingCognitoPoolId props = [])"
    by (rule userPoolCreated_construct)
  have trusted: "trustedUserPoolIds physicalId ?a =
      [if existingCognitoPoolId props = [] then physicalId ''DLTUserPool''
       else existingCognitoPoolId props]"
    by (simp add: trustedUserPoolIds_construct resolvedUserPoolId_construct)
  have openSignUp: "trustedPoolSelfSignUp existingSelfSignUp physicalId ?a =
      (existingCognitoPoolId props \<noteq> [] \<and> existingSelfSignUp (existingCognitoPoolId props))"
    unfolding trustedPoolSelfSignUp_def created
    using signUp by (simp add: resolvedUserPoolId_construct)
  have provider: "supportedIdentityProviders (cognitoUserPoolClient ?a) = [''AzureAD'']"
    by (simp add: CognitoAuthConstruct_def Let_def)
  have clientPool: "clientUserPoolId (cognitoUserPoolClient ?a) = cognitoUserPoolId ?a"
    by (simp add: CognitoAuthConstruct_def Let_def)
  from identities signUp settings created trusted openSignUp provider clientPool
  show ?thesis by blast
qed

text \<open>
  The amended C8 without an existing pool: the pool is created, it is the pool the
  identity pool trusts, and self sign-up is closed whatever the account's other pools
  allow.
\<close>

theorem cognito_pool_settings_and_trusted_pool_witness:
  "userPoolCreated (CognitoAuthConstruct
      \<lparr> adminEmail = ''admin@example.com'', adminName = ''admin'', apiId = ''api'',
        cloudFrontDomainName = ''d111.cloudfront.net'', scenariosBucketArn = ''arn:aws:s3:::scenarios'',
        existingCognitoPoolId = [] \<rparr>)
   \<and> trustedUserPoolIds (\<lambda>l. ''id-of-'' @ l) (CognitoAuthConstruct
      \<lparr> adminEmail = ''admin@example.com'', adminName = ''admin'', apiId = ''api'',
        cloudFrontDomainName = ''d111.cloudfront.net'', scenariosBucketArn = ''arn:aws:s3:::scenarios'',
        existingCognitoPoolId = [] \<rparr>) = [''id-of-DLTUserPool'']
   \<and> \<not> trustedPoolSelfSignUp (\<lambda>poolId. True) (\<lambda>l. ''id-of-'' @ l) (CognitoAuthConstruct
      \<lparr> adminEmail = ''admin@example.com'', adminName = ''admin'', apiId = ''api'',
        cloudFrontDomainName = ''d111.cloudfront.net'', scenariosBucketArn = ''arn:aws:s3:::scenarios'',
        existingCognitoPoolId = [] \<rparr>)"
  using cognito_pool_settings_and_trusted_pool [of
      "\<lparr> adminEmail = ''admin@example.com'', adminName = ''admin'', apiId = ''api'',
        cloudFrontDomainName = ''d111.cloudfront.net'', scenariosBucketArn = ''arn:aws:s3:::scenarios'',
        existingCognitoPoolId = [] \<rparr>"
      "\<lambda>l. ''id-of-'' @ l" "\<lambda>poolId. True"]
  by simp

text \<open>
  C8 as stated fails. With \<open>existingCognitoPoolId\<close> set to the id of a pool of the
  account that allows self sign-up, the user pool with the stated settings is not
  created, the identity pool trusts the existing pool, and people can sign themselves
  up in it: a console identity is obtained without an account provisioned by an
  administrator.
\<close>

theorem cognito_existing_pool_counterexample:
  "\<not> userPoolCreated (CognitoAuthConstruct
      \<lparr> adminEmail = ''admin@example.com'', adminName = ''admin'', apiId = ''api'',
        cloudFrontDomainName = ''d111.cloudfront.net'', scenariosBucketArn = ''arn:aws:s3:::scenarios'',
        existingCognitoPoolId = ''us-east-1_123456789'' \<rparr>)
   \<and> trustedUserPoolIds (\<lambda>l. ''id-of-'' @ l) (CognitoAuthConstruct
      \<lparr> adminEmail = ''admin@example.com'', adminName = ''admin'', apiId = ''api'',
        cloudFrontDomainName = ''d111.cloudfront.net'', scenariosBucketArn = ''arn:aws:s3:::scenarios'',
        existingCognitoPoolId = ''us-east-1_123456789'' \<rparr>) = [''us-east-1_123456789'']
   \<and> trustedPoolSelfSignUp (\<lambda>poolId. poolId = ''us-east-1_123456789'')
        (\<lambda>l. ''id-of-'' @ l) (CognitoAuthConstruct
      \<lparr> adminEmail = ''admin@example.com'', adminName = ''admin'', apiId = ''api'',
        cloudFrontDomainName = ''d111.cloudfront.net'', scenariosBucketArn = ''arn:aws:s3:::scenarios'',
        existingCognitoPoolId = ''us-east-1_123456789'' \<rparr>)
   \<and> supportedIdentityProviders (cognitoUserPoolClient (CognitoAuthConstruct
      \<lparr> adminEmail = ''admin@example.com'', adminName = ''admin'', apiId = ''api'',
        cloudFrontDomainName = ''d111.cloudfront.net'', scenariosBucketArn = ''arn:aws:s3:::scenarios'',
        existingCognitoPoolId = ''us-east-1_123456789'' \<rparr>)) = [''AzureAD'']"
proof -
  let ?props = "\<lparr> adminEmail = ''admin@example.com'', adminName = ''admin'', apiId = ''api'',
        cloudFrontDomainName = ''d111.cloudfront.net'', scenariosBucketArn = ''arn:aws:s3:::scenarios'',
        existingCognitoPoolId = ''us-east-1_123456789'' \<rparr>"
  have existing: "existingCognitoPoolId ?props = ''us-east-1_123456789''" by simp
  have notCreated: "\<not> userPoolCreated (CognitoAuthConstruct ?props)"
    unfolding userPoolCreated_construct existing by simp
  have resolved: "resolvedUserPoolId (\<lambda>l. ''id-of-'' @ l) (CognitoAuthConstruct ?props)
      = ''us-east-1_123456789''"
    unfolding resolvedUserPoolId_construct existing by simp
  have trusted: "trustedUserPoolIds (\<lambda>l. ''id-of-'' @ l) (CognitoAuthConstruct ?props)
      = [''us-east-1_123456789'']"
    unfolding trustedUserPoolIds_construct resolved by simp
  have openSignUp: "trustedPoolSelfSignUp (\<lambda>poolId. poolId = ''us-east-1_123456789'')
      (\<lambda>l. ''id-of-'' @ l) (CognitoAuthConstruct ?props)"
    unfolding trustedPoolSelfSignUp_def resolved using notCreated by simp
  have provider: "supportedIdentityProviders (cognitoUserPoolClient (CognitoAuthConstruct ?props))
      = [''AzureAD'']"
    by (simp add: CognitoAuthConstruct_def Let_def)
  from notCreated trusted openSignUp provider show ?thesis by blast
qed

text \<open>
  C10. Deploying the Cognito construct creates the user pool resource exactly when
  the prop \<open>existingCognitoPoolId\<close> is the empty string; the pool id the construct
  exposes resolves to the id of the created pool in that case and to
  \<open>existingCognitoPoolId\<close> otherwise. The administrator's user and the identity
  pool's provider use that same id.
\<close>

theorem user_pool_created_iff_no_existing_pool:
  "userPoolCreated (CognitoAuthConstruct props) = (existingCognitoPoolId props = [])
   \<and> resolvedUserPoolId physicalId (CognitoAuthConstruct props) =
       (if existingCognitoPoolId props = [] then physicalId ''DLTUserPool''
        else existingCognitoPoolId props)
   \<and> userPoolIdOfUser (cognitoUser (CognitoAuthConstruct props)) =
       cognitoUserPoolId (CognitoAuthConstruct props)
   \<and> map providerUserPoolId
         (cognitoIdentityProviders (cognitoIdentityPool (CognitoAuthConstruct props))) =
       [cognitoUserPoolId (CognitoAuthConstruct props)]"
proof -
  let ?a = "CognitoAuthConstruct props"
  have cond: "userPoolCondition (cognitoUserPool ?a) = Some ''createUserPoolResource''"
    by (simp add: CognitoAuthConstruct_def Let_def)
  have poolId: "cognitoUserPoolId ?a =
      ConditionIf ''createUserPoolResource'' (ResourceRef ''DLTUserPool'')
        (Str (existingCognitoPoolId props))"
    by (simp add: CognitoAuthConstruct_def Let_def)
  have created: "userPoolCreated ?a = (existingCognitoPoolId props = [])"
    unfolding userPoolCreated_def cond
    by (simp add: createUserPoolResource_holds)
  have resolved: "resolvedUserPoolId physicalId ?a =
      (if existingCognitoPoolId props = [] then physicalId ''DLTUserPool''
       else existingCognitoPoolId props)"
    unfolding resolvedUserPoolId_def poolId
    by (simp add: createUserPoolResource_holds)
  have user: "userPoolIdOfUser (cognitoUser ?a) = cognitoUserPoolId ?a"
    by (simp add: CognitoAuthConstruct_def Let_def)
  have provider: "map providerUserPoolId (cognitoIdentityProviders (cognitoIdentityPool ?a)) =
      [cognitoUserPoolId ?a]"
    by (simp add: CognitoAuthConstruct_def Let_def)
  from created resolved user provider show ?thesis by blast
qed

text \<open>
  The two deployments of C10 on concrete props: without an existing pool the pool is
  created and its id is exposed, with one it is not created and the given id is exposed.
\<close>

theorem user_pool_created_iff_no_existing_pool_witness:
  "userPoolCreated (CognitoAuthConstruct
      \<lparr> adminEmail = ''admin@example.com'', adminName = ''admin'', apiId = ''api'',
        cloudFrontDomainName = ''d111.cloudfront.net'', scenariosBucketArn = ''arn:aws:s3:::scenarios'',
        existingCognitoPoolId = [] \<rparr>)
   \<and> resolvedUserPoolId (\<lambda>l. ''id-of-'' @ l) (CognitoAuthConstruct
      \<lparr> adminEmail = ''admin@example.com'', adminName = ''admin'', apiId = ''api'',
        cloudFrontDomainName = ''d111.cloudfront.net'', scenariosBucketArn = ''arn:aws:s3:::scenarios'',
        existingCognitoPoolId = [] \<rparr>) = ''id-of-DLTUserPool''
   \<and> \<not> userPoolCreated (CognitoAuthConstruct
      \<lparr> adminEmail = ''admin@example.com'', adminName = ''admin'', apiId = ''api'',
        cloudFrontDomainName = ''d111.cloudfront.net'', scenariosBucketArn = ''arn:aws:s3:::scenarios'',
        existingCognitoPoolId = ''us-east-1_123456789'' \<rparr>)
   \<and> resolvedUserPoolId (\<lambda>l. ''id-of-'' @ l) (CognitoAuthConstruct
      \<lparr> adminEmail = ''admin@example.com'', adminName = ''admin'', apiId = ''api'',
        cloudFrontDomainName = ''d111.cloudfront.net'', scenariosBucketArn = ''arn:aws:s3:::scenarios'',
        existingCognitoPoolId = ''us-east-1_123456789'' \<rparr>) = ''us-east-1_123456789''"
  using
    user_pool_created_iff_no_existing_pool [of
      "\<lparr> adminEmail = ''admin@example.com'', adminName = ''admin'', apiId = ''api'',
         cloudFrontDomainName = ''d111.cloudfront.net'', scenariosBucketArn = ''arn:aws:s3:::scenarios'',
         existingCognitoPoolId = [] \<rparr>" "\<lambda>l. ''id-of-'' @ l"]
    user_pool_created_iff_no_existing_pool [of
      "\<lparr> adminEmail = ''admin@example.com'', adminName = ''admin'', apiId = ''api'',
         cloudFrontDomainName = ''d111.cloudfront.net'', scenariosBucketArn = ''arn:aws:s3:::scenarios'',
         existingCognitoPoolId = ''us-east-1_123456789'' \<rparr>" "\<lambda>l. ''id-of-'' @ l"]
  by simp

section \<open>Properties of the fleet placement\<close>

lemma ceilDiv_covers:
  assumes "0 < b"
  shows "a \<le> ceilDiv a b * b"
proof -
  let ?n = "a + b - 1"
  have "?n = ?n div b * b + ?n mod b" by simp
  moreover have "?n mod b < b" using assms by simp
  ultimately have "?n < ?n div b * b + b" by linarith
  then show ?thesis using assms by (simp add: ceilDiv_def)
qed

lemma ceilDiv_least:
  assumes "0 < b" "a \<le> n * b"
  shows "ceilDiv a b \<le> n"
proof -
  have "a + b - 1 < Suc n * b" using assms by simp
  then have "(a + b - 1) div b < Suc n"
    using assms(1) by (simp add: div_less_iff_less_mult)
  then show ?thesis by (simp add: ceilDiv_def)
qed

lemma ceilDiv_split:
  assumes "0 < b"
  shows "ceilDiv a b = a div b + (if a mod b = 0 then 0 else 1)"
proof (cases "a mod b = 0")
  case True
  then have exact: "a = a div b * b" by auto
  then have "a \<le> a div b * b" by simp
  then have upper: "ceilDiv a b \<le> a div b" by (rule ceilDiv_least [OF assms])
  have "a div b * b \<le> ceilDiv a b * b"
    using ceilDiv_covers [OF assms, of a] exact by simp
  then have "a div b \<le> ceilDiv a b" using assms by simp
  with upper True show ?thesis by simp
next
  case False
  have split: "a = a div b * b + a mod b" by simp
  moreover have "a mod b < b" using assms by simp
  ultimately have "a < a div b * b + b" by linarith
  then have "a \<le> Suc (a div b) * b" by simp
  then have upper: "ceilDiv a b \<le> Suc (a div b)" by (rule ceilDiv_least [OF assms])
  have "a div b * b < a" using False split by linarith
  also have "a \<le> ceilDiv a b * b" by (rule ceilDiv_covers [OF assms])
  finally have "a div b < ceilDiv a b" by simp
  with upper False show ?thesis by simp
qed

lemma count_roundRobin:
  assumes "0 < r" "i < r"
  shows "count_list (roundRobin w r) i = w div r + (if i < w mod r then 1 else 0)"
proof (induction w)
  case 0
  then show ?case by (simp add: roundRobin_def)
next
  case (Suc w)
  have step: "count_list (roundRobin (Suc w) r) i =
      count_list (roundRobin w r) i + (if w mod r = i then 1 else 0)"
    by (simp add: roundRobin_def)
  show ?case
  proof (cases "Suc (w mod r) = r")
    case True
    then have "Suc w mod r = 0" "Suc w div r = Suc (w div r)"
      by (simp_all add: mod_Suc div_Suc)
    with True assms Suc step show ?thesis by auto
  next
    case False
    then have "Suc w mod r = Suc (w mod r)" "Suc w div r = w div r"
      by (simp_all add: mod_Suc div_Suc)
    with False assms Suc step show ?thesis by auto
  qed
qed

lemma sum_list_indicator:
  "sum_list (map (\<lambda>i. if x = i then 1 else 0) [0..<r]) = (if x < r then 1 else (0::nat))"
  by (induction r) auto

lemma sum_count_list_below:
  "\<forall>x \<in> set xs. x < r \<Longrightarrow> sum_list (map (count_list xs) [0..<r]) = length xs"
proof (induction xs)
  case Nil
  then show ?case by simp
next
  case (Cons x xs)
  have "sum_list (map (count_list (x # xs)) [0..<r]) =
        sum_list (map (\<lambda>i. (if x = i then 1 else 0) + count_list xs i) [0..<r])"
    by (rule arg_cong [where f = sum_list]) auto
  also have "\<dots> = sum_list (map (\<lambda>i. if x = i then 1 else 0) [0..<r])
                   + sum_list (map (count_list xs) [0..<r])"
    by (simp add: sum_list_addf)
  also have "\<dots> = length (x # xs)"
    using Cons by (simp add: sum_list_indicator)
  finally show ?case .
qed

lemma perRegionCounts_nth:
  assumes "regions \<noteq> []" "i < length regions"
  shows "perRegionCounts w regions ! i =
     w div length regions + (if i < w mod length regions then 1 else 0)"
  using assms by (simp add: perRegionCounts_def count_roundRobin)

lemma sum_perRegionCounts:
  assumes "regions \<noteq> []"
  shows "sum_list (perRegionCounts w regions) = w"
proof -
  have "\<forall>x \<in> set (roundRobin w (length regions)). x < length regions"
    using assms by (simp add: roundRobin_def)
  then show ?thesis
    unfolding perRegionCounts_def by (simp add: sum_count_list_below roundRobin_def)
qed

lemma count_list_map_filter:
  "count_list (map f xs) y = length (filter (\<lambda>x. f x = y) xs)"
  by (induction xs) auto

lemma count_assignRegions:
  assumes "distinct regions" "i < length regions"
  shows "count_list (assignRegions w regions) (regions ! i) = perRegionCounts w regions ! i"
proof -
  let ?slots = "roundRobin w (length regions)"
  have nonempty: "regions \<noteq> []" using assms(2) by auto
  have below: "\<forall>k \<in> set ?slots. k < length regions"
    using nonempty by (simp add: roundRobin_def)
  have "count_list (assignRegions w regions) (regions ! i) =
        length (filter (\<lambda>k. regions ! k = regions ! i) ?slots)"
    using nonempty by (simp add: assignRegions_def count_list_map_filter)
  also have "filter (\<lambda>k. regions ! k = regions ! i) ?slots = filter (\<lambda>k. k = i) ?slots"
    using below assms by (intro filter_cong refl) (simp add: nth_eq_iff_index_eq)
  also have "length (filter (\<lambda>k. k = i) ?slots) = count_list ?slots i"
    using count_list_map_filter [of "\<lambda>k. k" ?slots i] by simp
  finally show ?thesis using assms(2) by (simp add: perRegionCounts_def)
qed

text \<open>
  C7, as amended. For every worker count and non-empty region list, round-robin
  placement gives the listed region of index \<open>i\<close> the floor of
  \<open>workerCount / regionCount\<close> workers, and one more when
  \<open>i < workerCount mod regionCount\<close>. No region gets more than the ceiling, the first
  listed region gets exactly the ceiling, any two regions differ by at most one worker,
  and the counts sum to the worker count. When the listed regions are distinct, the
  count of a region is the number of launched workers assigned to it.
\<close>

theorem round_robin_region_counts:
  assumes "regions \<noteq> []"
  shows "length (perRegionCounts w regions) = length regions
     \<and> sum_list (perRegionCounts w regions) = w
     \<and> (\<forall>i < length regions. perRegionCounts w regions ! i =
           w div length regions + (if i < w mod length regions then 1 else 0))
     \<and> (\<forall>i < length regions. perRegionCounts w regions ! i \<le> ceilDiv w (length regions))
     \<and> perRegionCounts w regions ! 0 = ceilDiv w (length regions)
     \<and> (\<forall>i < length regions. \<forall>j < length regions.
           perRegionCounts w regions ! i \<le> perRegionCounts w regions ! j + 1)
     \<and> (distinct regions \<longrightarrow>
          (\<forall>i < length regions.
             count_list (assignRegions w regions) (regions ! i) = perRegionCounts w regions ! i))"
proof -
  let ?r = "length regions"
  have r: "0 < ?r" using assms by simp
  have len: "length (perRegionCounts w regions) = ?r"
    by (simp add: perRegionCounts_def)
  have nth: "\<forall>i < ?r. perRegionCounts w regions ! i = w div ?r + (if i < w mod ?r then 1 else 0)"
    using assms by (simp add: perRegionCounts_nth)
  have ceil: "ceilDiv w ?r = w div ?r + (if w mod ?r = 0 then 0 else 1)"
    by (rule ceilDiv_split [OF r])
  have upper: "\<forall>i < ?r. perRegionCounts w regions ! i \<le> ceilDiv w ?r"
    using nth ceil by auto
  have first: "perRegionCounts w regions ! 0 = ceilDiv w ?r"
    using nth ceil r by auto
  have even: "\<forall>i < ?r. \<forall>j < ?r.
      perRegionCounts w regions ! i \<le> perRegionCounts w regions ! j + 1"
    using nth by auto
  have placed: "distinct regions \<longrightarrow>
      (\<forall>i < ?r. count_list (assignRegions w regions) (regions ! i) = perRegionCounts w regions ! i)"
    by (simp add: count_assignRegions)
  from len sum_perRegionCounts [OF assms] nth upper first even placed show ?thesis by blast
qed

text \<open>
  The amended C7 on five workers over three regions: the counts are 2, 2 and 1.
\<close>

theorem round_robin_region_counts_witness:
  "[''us-east-1'', ''eu-west-1'', ''ap-south-1''] \<noteq> []
   \<and> perRegionCounts 5 [''us-east-1'', ''eu-west-1'', ''ap-south-1''] = [2, 2, 1]
   \<and> sum_list (perRegionCounts 5 [''us-east-1'', ''eu-west-1'', ''ap-south-1'']) = 5
   \<and> perRegionCounts 5 [''us-east-1'', ''eu-west-1'', ''ap-south-1''] ! 0
       = ceilDiv 5 (length [''us-east-1'', ''eu-west-1'', ''ap-south-1''])"
proof -
  let ?regions = "[''us-east-1'', ''eu-west-1'', ''ap-south-1'']"
  have nonempty: "?regions \<noteq> []" by simp
  have counts: "perRegionCounts 5 ?regions = [2, 2, 1]" by code_simp
  from round_robin_region_counts [OF nonempty, of 5]
  have "sum_list (perRegionCounts 5 ?regions) = 5
      \<and> perRegionCounts 5 ?regions ! 0 = ceilDiv 5 (length ?regions)"
    by blast
  with nonempty counts show ?thesis by blast
qed

text \<open>
  C7 as stated fails. Five workers over two regions: the second region gets 2 workers,
  not the ceiling 3 (two regions of 3 workers each would be six workers). Five workers
  over three regions: the remainder 2 is spread over the first two regions, not given
  to the first listed region, which gets 2 workers and not 3.
\<close>

theorem region_counts_not_all_ceil_counterexample:
  "perRegionCounts 5 [''us-east-1'', ''eu-west-1''] = [3, 2]
   \<and> ceilDiv 5 (length [''us-east-1'', ''eu-west-1'']) = 3
   \<and> perRegionCounts 5 [''us-east-1'', ''eu-west-1'', ''ap-south-1''] = [2, 2, 1]
   \<and> 5 mod length [''us-east-1'', ''eu-west-1'', ''ap-south-1''] = 2
   \<and> sum_list (replicate (length [''us-east-1'', ''eu-west-1''])
         (ceilDiv 5 (length [''us-east-1'', ''eu-west-1'']))) = 6"
  by code_simp

section \<open>Properties of the results aggregator\<close>

lemma mergeHistograms_Nil2: "mergeHistograms h [] = h"
  by (cases h) auto

lemma mergeHistograms_commute: "mergeHistograms h h' = mergeHistograms h' h"
  by (induction h h' rule: mergeHistograms.induct) (auto simp: mergeHistograms_Nil2)

lemma mergeHistograms_assoc:
  "mergeHistograms (mergeHistograms h1 h2) h3 = mergeHistograms h1 (mergeHistograms h2 h3)"
proof (induction h1 arbitrary: h2 h3)
  case Nil
  then show ?case by simp
next
  case (Cons a h1)
  show ?case
  proof (cases h2)
    case Nil
    then show ?thesis by simp
  next
    case h2: (Cons b h2')
    show ?thesis
    proof (cases h3)
      case Nil
      then show ?thesis by (simp add: mergeHistograms_Nil2)
    next
      case (Cons c h3')
      with h2 Cons.IH show ?thesis by (simp add: add.assoc)
    qed
  qed
qed

lemma mergeHistograms_left_commute:
  "mergeHistograms h1 \<circ> mergeHistograms h2 = mergeHistograms h2 \<circ> mergeHistograms h1"
proof
  fix h
  have "mergeHistograms h1 (mergeHistograms h2 h) = mergeHistograms (mergeHistograms h1 h2) h"
    by (simp add: mergeHistograms_assoc)
  also have "\<dots> = mergeHistograms (mergeHistograms h2 h1) h"
    by (simp add: mergeHistograms_commute)
  also have "\<dots> = mergeHistograms h2 (mergeHistograms h1 h)"
    by (simp add: mergeHistograms_assoc)
  finally show "(mergeHistograms h1 \<circ> mergeHistograms h2) h
      = (mergeHistograms h2 \<circ> mergeHistograms h1) h"
    by simp
qed

lemma mergedHistogram_mset:
  assumes "mset arts = mset arts'"
  shows "mergedHistogram arts = mergedHistogram arts'"
proof -
  let ?hs = "map (\<lambda>a. latencyHistogram (perWorkerSummary a))"
  have "mset (?hs arts) = mset (?hs arts')" using assms by simp
  then have "fold mergeHistograms (?hs arts) = fold mergeHistograms (?hs arts')"
    by (rule fold_multiset_equiv [OF mergeHistograms_left_commute])
  then show ?thesis by (simp add: mergedHistogram_def)
qed

lemma sum_list_mset_cong:
  assumes "mset xs = mset ys"
  shows "sum_list (map f xs) = sum_list (map (f :: 'a \<Rightarrow> nat) ys)"
proof -
  have "sum_list (map f xs) = sum_mset (image_mset f (mset xs))"
    by (simp add: sum_mset_sum_list [symmetric])
  also have "\<dots> = sum_mset (image_mset f (mset ys))" using assms by simp
  also have "\<dots> = sum_list (map f ys)"
    by (simp add: sum_mset_sum_list [symmetric])
  finally show ?thesis .
qed

lemma length_filter_mset_cong:
  assumes "mset xs = mset ys"
  shows "length (filter P xs) = length (filter P ys)"
proof -
  have "length (filter P xs) = size (filter_mset P (mset xs))"
    by (simp flip: mset_filter)
  also have "\<dots> = size (filter_mset P (mset ys))" using assms by simp
  also have "\<dots> = length (filter P ys)" by (simp flip: mset_filter)
  finally show ?thesis .
qed

lemma aggregate_mset:
  assumes "mset arts = mset arts'"
  shows "aggregate arts = aggregate arts'"
proof -
  have empty: "(arts = []) = (arts' = [])"
    using assms by (metis mset_zero_iff)
  have region: "(\<lambda>r. length (filter (\<lambda>a. assignedRegion a = r) arts)) =
                (\<lambda>r. length (filter (\<lambda>a. assignedRegion a = r) arts'))"
    by (rule ext) (rule length_filter_mset_cong [OF assms])
  show ?thesis
    unfolding aggregate_def
    by (simp only: empty region mergedHistogram_mset [OF assms] sum_list_mset_cong [OF assms])
qed

lemma bucketCount_mergeHistograms:
  "bucketCount (mergeHistograms h h') i = bucketCount h i + bucketCount h' i"
proof (induction h h' arbitrary: i rule: mergeHistograms.induct)
  case (3 a h b h')
  then show ?case by (cases i) auto
qed auto

lemma bucketCount_fold:
  "bucketCount (fold mergeHistograms hs acc) i
     = sum_list (map (\<lambda>h. bucketCount h i) hs) + bucketCount acc i"
  by (induction hs arbitrary: acc) (auto simp: bucketCount_mergeHistograms)

lemma bucketCount_mergedHistogram:
  "bucketCount (mergedHistogram arts) i
     = sum_list (map (\<lambda>a. bucketCount (latencyHistogram (perWorkerSummary a)) i) arts)"
  by (simp add: mergedHistogram_def bucketCount_fold comp_def)

text \<open>
  C5. The aggregator's result does not depend on the order of the artifacts: two
  lists holding the same artifacts (one a permutation of the other) give the same
  result, the same \<open>NoArtifacts\<close> failure when empty and the same ResultSummary
  otherwise. In that summary the request count, the error count and the throughput are
  the sums over the workers, and the percentiles are read off the merged histogram,
  whose count in every bucket is the sum of the workers' counts in that bucket.
\<close>

theorem aggregation_order_independent:
  assumes "mset arts = mset arts'"
  shows "aggregate arts = aggregate arts'
     \<and> aggregate arts =
         (if arts = [] then Inl NoArtifacts
          else Inr \<lparr> totalRequests = sum_list (map (\<lambda>a. requestCount (perWorkerSummary a)) arts),
                     errorCount = sum_list (map (\<lambda>a. workerErrorCount (perWorkerSummary a)) arts),
                     throughput = sum_list (map (\<lambda>a. workerThroughput (perWorkerSummary a)) arts),
                     p50 = percentile 50 (mergedHistogram arts),
                     p90 = percentile 90 (mergedHistogram arts),
                     p99 = percentile 99 (mergedHistogram arts),
                     perRegion = (\<lambda>r. length (filter (\<lambda>a. assignedRegion a = r) arts)) \<rparr>)
     \<and> mergedHistogram arts = mergedHistogram arts'
     \<and> (\<forall>i. bucketCount (mergedHistogram arts) i
            = sum_list (map (\<lambda>a. bucketCount (latencyHistogram (perWorkerSummary a)) i) arts))"
proof -
  have same: "aggregate arts = aggregate arts'"
    by (rule aggregate_mset [OF assms])
  have shape: "aggregate arts =
         (if arts = [] then Inl NoArtifacts
          else Inr \<lparr> totalRequests = sum_list (map (\<lambda>a. requestCount (perWorkerSummary a)) arts),
                     errorCount = sum_list (map (\<lambda>a. workerErrorCount (perWorkerSummary a)) arts),
                     throughput = sum_list (map (\<lambda>a. workerThroughput (perWorkerSummary a)) arts),
                     p50 = percentile 50 (mergedHistogram arts),
                     p90 = percentile 90 (mergedHistogram arts),
                     p99 = percentile 99 (mergedHistogram arts),
                     perRegion = (\<lambda>r. length (filter (\<lambda>a. assignedRegion a = r) arts)) \<rparr>)"
    by (simp add: aggregate_def Let_def)
  have merged: "mergedHistogram arts = mergedHistogram arts'"
    by (rule mergedHistogram_mset [OF assms])
  have buckets: "\<forall>i. bucketCount (mergedHistogram arts) i
      = sum_list (map (\<lambda>a. bucketCount (latencyHistogram (perWorkerSummary a)) i) arts)"
    by (simp add: bucketCount_mergedHistogram)
  from same shape merged buckets show ?thesis by blast
qed

text \<open>
  C5 on two artifacts in both orders. The merged histogram puts the median in bucket 0,
  while the two workers' own medians are in buckets 0 and 2: the percentile is not an
  average of the workers' percentiles.
\<close>

theorem aggregation_order_independent_witness:
  "mset [\<lparr> assignedRegion = ''us-east-1'', perWorkerSummary =
             \<lparr> requestCount = 90, workerErrorCount = 1, workerThroughput = 9,
               latencyHistogram = [9, 0, 0] \<rparr> \<rparr>,
          \<lparr> assignedRegion = ''eu-west-1'', perWorkerSummary =
             \<lparr> requestCount = 10, workerErrorCount = 2, workerThroughput = 1,
               latencyHistogram = [0, 0, 1] \<rparr> \<rparr>]
     = mset [\<lparr> assignedRegion = ''eu-west-1'', perWorkerSummary =
             \<lparr> requestCount = 10, workerErrorCount = 2, workerThroughput = 1,
               latencyHistogram = [0, 0, 1] \<rparr> \<rparr>,
          \<lparr> assignedRegion = ''us-east-1'', perWorkerSummary =
             \<lparr> requestCount = 90, workerErrorCount = 1, workerThroughput = 9,
               latencyHistogram = [9, 0, 0] \<rparr> \<rparr>]
   \<and> aggregate
        [\<lparr> assignedRegion = ''us-east-1'', perWorkerSummary =
             \<lparr> requestCount = 90, workerErrorCount = 1, workerThroughput = 9,
               latencyHistogram = [9, 0, 0] \<rparr> \<rparr>,
          \<lparr> assignedRegion = ''eu-west-1'', perWorkerSummary =
             \<lparr> requestCount = 10, workerErrorCount = 2, workerThroughput = 1,
               latencyHistogram = [0, 0, 1] \<rparr> \<rparr>]
     = aggregate
        [\<lparr> assignedRegion = ''eu-west-1'', perWorkerSummary =
             \<lparr> requestCount = 10, workerErrorCount = 2, workerThroughput = 1,
               latencyHistogram = [0, 0, 1] \<rparr> \<rparr>,
          \<lparr> assignedRegion = ''us-east-1'', perWorkerSummary =
             \<lparr> requestCount = 90, workerErrorCount = 1, workerThroughput = 9,
               latencyHistogram = [9, 0, 0] \<rparr> \<rparr>]
   \<and> mergedHistogram
        [\<lparr> assignedRegion = ''eu-west-1'', perWorkerSummary =
             \<lparr> requestCount = 10, workerErrorCount = 2, workerThroughput = 1,
               latencyHistogram = [0, 0, 1] \<rparr> \<rparr>,
          \<lparr> assignedRegion = ''us-east-1'', perWorkerSummary =
             \<lparr> requestCount = 90, workerErrorCount = 1, workerThroughput = 9,
               latencyHistogram = [9, 0, 0] \<rparr> \<rparr>] = [9, 0, 1]
   \<and> percentile 50 [9, 0, 1] = 0
   \<and> percentile 50 [9, 0, 0] = 0
   \<and> percentile 50 [0, 0, 1] = 2"
proof -
  let ?a = "\<lparr> assignedRegion = ''us-east-1'', perWorkerSummary =
             \<lparr> requestCount = 90, workerErrorCount = 1, workerThroughput = 9,
               latencyHistogram = [9, 0, 0] \<rparr> \<rparr>"
  let ?b = "\<lparr> assignedRegion = ''eu-west-1'', perWorkerSummary =
             \<lparr> requestCount = 10, workerErrorCount = 2, workerThroughput = 1,
               latencyHistogram = [0, 0, 1] \<rparr> \<rparr>"
  have perm: "mset [?a, ?b] = mset [?b, ?a]" by (simp add: add_mset_commute)
  from aggregation_order_independent [OF perm]
  have same: "aggregate [?a, ?b] = aggregate [?b, ?a]" by blast
  have merged: "mergedHistogram [?b, ?a] = [9, 0, 1]"
    by (simp add: mergedHistogram_def)
  have pct: "percentile 50 [9, 0, 1] = 0" "percentile 50 [9, 0, 0] = 0" "percentile 50 [0, 0, 1] = 2"
    by (simp_all add: percentile_def ceilDiv_def)
  from perm same merged pct show ?thesis by blast
qed

end
